theory Spec2Isabelle
  imports Complex_Main
begin

section \<open>Data model\<close>

text \<open>
  The script \<^verbatim>\<open>static/buildchart.js\<close> is kept in several revisions one after the
  other.  The definitions below follow the last revision (the one that plots CO2 and
  imports \<^verbatim>\<open>co2_map\<close>); the functions \<^verbatim>\<open>calculate_saturation_pressure\<close>,
  \<^verbatim>\<open>absolute_humidity\<close>, \<^verbatim>\<open>convert\<close> and the two-dataset \<^verbatim>\<open>update_chart\<close> exist
  only in the first revision and are taken from there.

  JavaScript numbers are IEEE doubles.  Timestamps, lengths and status codes are
  modelled as \<open>int\<close> and \<open>nat\<close>, measured quantities as \<open>real\<close>: rounding error,
  infinities and NaN are outside the model (for the humidity arithmetic see there).

  A reading is one element of the JSON array the service answers with.  The CO2 field may
  be missing; \<open>None\<close> stands for a missing (or \<^verbatim>\<open>null\<close>) field.
\<close>

record reading =
  time :: int
  temperature :: real
  humidity :: real
  co2 :: "real option"

text \<open>The object literal \<^verbatim>\<open>{ time: ..., value: ... }\<close>.\<close>

record point =
  time :: int
  "value" :: real

text \<open>The object literal \<^verbatim>\<open>{ temp: ..., humid: ..., co2: ... }\<close> of the last revision.\<close>

record series =
  temp :: "point list"
  humid :: "point list"
  co2 :: "point list"

text \<open>The object literal \<^verbatim>\<open>{ temp: ..., humid: ..., abs_humid: ... }\<close> of the first revision.\<close>

record converted =
  temp :: "point list"
  humid :: "point list"
  abs_humid :: "point list"

subsection \<open>The chart\<close>

text \<open>
  The plotting library is opaque.  Of the chart object the model keeps the dataset list,
  the bounds of the x axis, and the calls made to the library (\<^verbatim>\<open>update\<close>,
  \<^verbatim>\<open>resetZoom\<close>) in the order they were made.
\<close>

record xy =
  x :: int
  y :: real

record dataset =
  label :: string
  data :: "xy list"
  yAxisID :: string

record axis =
  axis_min :: real
  axis_max :: real

datatype chart_call = Update string | ResetZoom

record chart =
  datasets :: "dataset list"
  xAxis :: axis
  calls :: "chart_call list"

subsection \<open>The page\<close>

text \<open>
  The markup of the page is not part of the script, so the page is a parameter: the
  elements the script looks up by id exist and are pairwise distinct (they have different
  ids), every other element of the document is in \<open>others\<close>, and each element carries
  any set of classes.  What is assigned to \<^verbatim>\<open>textContent\<close> is kept as assigned: a
  string, a number, or the locale rendering of a date (which depends on the browser).
  \<open>sweeps\<close> records each \<^verbatim>\<open>querySelectorAll(...).forEach\<close> pass that assigned
  \<^verbatim>\<open>hidden\<close>, in order.
\<close>

datatype content = Str string | Num int | LocaleDate int

record element =
  classes :: "string list"
  hidden :: bool
  textContent :: content
  backgroundColor :: string

datatype sweep = SetHidden string bool

record page =
  load_time :: element
  points_loaded :: element
  error_message :: element
  start_date :: element
  end_date :: element
  others :: "element list"
  password_value :: string
  timespan_value :: string
  sweeps :: "sweep list"

definition all_elements :: "page \<Rightarrow> element list" where
  "all_elements p =
     [load_time p, points_loaded p, error_message p, start_date p, end_date p] @ others p"

definition has_class :: "string \<Rightarrow> element \<Rightarrow> bool" where
  "has_class c e = (c \<in> set (classes e))"

subsection \<open>The network\<close>

text \<open>
  \<^verbatim>\<open>fetch\<close> either rejects (\<open>Inl\<close>, with the text of the error) or resolves to a
  response.  Reading the body as text or as JSON may reject as well.  A body that
  decodes is an array of readings, as the service promises.  \<open>now_start\<close> and
  \<open>now_end\<close> are the two values \<^verbatim>\<open>Date.now()\<close> gives during the request.
\<close>

record request =
  url :: string
  authorization :: string

record response =
  status :: nat
  body_text :: "string + string"
  body_json :: "string + reading list"

record env =
  fetch :: "request \<Rightarrow> string + response"
  now_start :: int
  now_end :: int

section \<open>Metric derivation (first revision)\<close>

text \<open>
  The two functions are written over the reals, operation by operation as the code has
  them.  They stand for the code's binary64 computation, up to rounding, only where no
  intermediate result underflows, overflows or divides by 0: \<^verbatim>\<open>Math.exp\<close> becomes 0
  for temperatures just above -257.14 and infinite just below (the real \<open>exp\<close> is
  always positive and finite), and at 0 and at -257.14 the code divides by 0.  Nothing is
  proved about them on that part of the input; they are evaluated at -10 degrees and 50
  percent, where every intermediate result has a magnitude between \<open>10\<^sup>-\<^sup>5\<close>
  and \<open>10\<^sup>2\<close>.
\<close>

definition calculate_saturation_pressure :: "real \<Rightarrow> real" where
  "calculate_saturation_pressure temperature_c =
     (let t_1 = temperature_c / 234.5;
          t_2 = temperature_c / (257.14 + temperature_c);
          pow1 = (18.678 - t_1) * t_2;
          exp1 = exp pow1
      in 0.61121 * exp1)"

definition absolute_humidity :: "reading \<Rightarrow> point" where
  "absolute_humidity d =
     (let temp = temperature d;
          hum = humidity d;
          saturation_pressure = calculate_saturation_pressure temp;
          vapor_pressure = saturation_pressure * (hum / 100);
          moles = vapor_pressure / (461.5 * temp)
      in \<lparr>time = reading.time d, value = moles * 18.02 * 1000\<rparr>)"

definition convert :: "reading list \<Rightarrow> converted" where
  "convert d =
     (let temp = map (\<lambda>v. \<lparr>time = reading.time v, value = temperature v\<rparr>) d;
          humidity = map (\<lambda>v. \<lparr>time = reading.time v, value = humidity v\<rparr>) d;
          abs_hum = map absolute_humidity d
      in \<lparr>temp = temp, humid = humidity, abs_humid = abs_hum\<rparr>)"

section \<open>Fetching\<close>

definition set_hidden_by_class :: "string \<Rightarrow> bool \<Rightarrow> page \<Rightarrow> page" where
  "set_hidden_by_class c h p =
     (let f = (\<lambda>e. if has_class c e then e\<lparr>hidden := h\<rparr> else e)
      in p\<lparr>load_time := f (load_time p),
           points_loaded := f (points_loaded p),
           error_message := f (error_message p),
           start_date := f (start_date p),
           end_date := f (end_date p),
           others := map f (others p),
           sweeps := sweeps p @ [SetHidden c h]\<rparr>)"

definition report_error :: "string \<Rightarrow> page \<Rightarrow> page" where
  "report_error message p =
     (let p1 = set_hidden_by_class ''hide-until-loaded'' True p;
          p2 = p1\<lparr>error_message := (error_message p1)\<lparr>textContent := Str message\<rparr>\<rparr>
      in p2\<lparr>error_message := (error_message p2)\<lparr>hidden := False\<rparr>\<rparr>)"

text \<open>The statements of the \<^verbatim>\<open>try\<close> block after the body has been decoded.\<close>

definition loaded :: "env \<Rightarrow> reading list \<Rightarrow> page \<Rightarrow> page" where
  "loaded e body p =
     (let p1 = p\<lparr>load_time := (load_time p)\<lparr>textContent := Num (now_end e - now_start e)\<rparr>\<rparr>;
          p2 = p1\<lparr>points_loaded := (points_loaded p1)\<lparr>textContent := Num (int (length body))\<rparr>\<rparr>;
          p3 = p2\<lparr>error_message := (error_message p2)\<lparr>hidden := True\<rparr>\<rparr>;
          p4 = set_hidden_by_class ''hide-until-loaded'' False p3
      in if length body > 0
         then
           (let p5 = p4\<lparr>start_date := (start_date p4)
                       \<lparr>textContent := LocaleDate (reading.time (body ! 0))\<rparr>\<rparr>
            in p5\<lparr>end_date := (end_date p5)
                    \<lparr>textContent := LocaleDate (reading.time (body ! (length body - 1)))\<rparr>\<rparr>)
         else
           (let p5 = p4\<lparr>start_date := (start_date p4)\<lparr>hidden := True\<rparr>\<rparr>
            in p5\<lparr>end_date := (end_date p5)\<lparr>hidden := True\<rparr>\<rparr>))"

text \<open>The request \<^verbatim>\<open>fetch(url, { headers: { authorization: ... } })\<close> sends.\<close>

definition request_for :: "string \<Rightarrow> page \<Rightarrow> request" where
  "request_for u p = \<lparr>url = u, authorization = ''Bearer '' @ password_value p\<rparr>"

text \<open>The \<^verbatim>\<open>try\<close> and \<^verbatim>\<open>catch\<close> blocks: the value returned and the page left behind.\<close>

definition try_catch :: "env \<Rightarrow> string \<Rightarrow> page \<Rightarrow> reading list \<times> page" where
  "try_catch e u p =
     (case fetch e (request_for u p) of
        Inl err \<Rightarrow> ([], report_error err p)
      | Inr d \<Rightarrow>
          if status d \<noteq> 200
          then (case body_text d of
                  Inl err \<Rightarrow> ([], report_error err p)
                | Inr t \<Rightarrow> ([], report_error t p))
          else (case body_json d of
                  Inl err \<Rightarrow> ([], report_error err p)
                | Inr body \<Rightarrow> (body, loaded e body p)))"

text \<open>The \<^verbatim>\<open>finally\<close> block runs after whichever branch returned.\<close>

definition fetch_data :: "env \<Rightarrow> string \<Rightarrow> page \<Rightarrow> reading list \<times> page" where
  "fetch_data e u p =
     (let (result, p1) = try_catch e u p
      in (result, set_hidden_by_class ''visible-until-loaded'' True p1))"

section \<open>Range queries\<close>

text \<open>
  String concatenation with a number writes the number in decimal (for the integers of
  magnitude below \<open>10\<^sup>2\<^sup>1\<close> that timestamps are).
\<close>

fun digits :: "nat \<Rightarrow> string" where
  "digits n =
     (if n < 10 then [char_of (48 + n)]
      else digits (n div 10) @ [char_of (48 + n mod 10)])"

declare digits.simps [simp del]

definition show_int :: "int \<Rightarrow> string" where
  "show_int i = (if i < 0 then ''-'' @ digits (nat (- i)) else digits (nat i))"

text \<open>\<^verbatim>\<open>Math.round\<close>: the nearest integer, a tie going up.\<close>

definition js_round :: "real \<Rightarrow> int" where
  "js_round v = \<lfloor>v + 1 / 2\<rfloor>"

text \<open>The argument of \<^verbatim>\<open>fetch_data\<close> in \<^verbatim>\<open>fetch_range_data_between\<close>.\<close>

definition range_url :: "int \<Rightarrow> int \<Rightarrow> string" where
  "range_url start_ms stop_ms =
     ''/data/from/'' @ show_int start_ms @ ''/to/'' @ show_int stop_ms"

text \<open>
  \<^verbatim>\<open>d.co2\<close> as a condition: a missing field and the number 0 are falsy, every other
  number is truthy.
\<close>

definition truthy :: "real option \<Rightarrow> bool" where
  "truthy v = (case v of None \<Rightarrow> False | Some n \<Rightarrow> n \<noteq> 0)"

definition fetch_range_data :: "env \<Rightarrow> string \<Rightarrow> page \<Rightarrow> series \<times> page" where
  "fetch_range_data e range' p =
     (let (d, p1) = fetch_data e (''/data/range/'' @ range') p;
          temp = map (\<lambda>d. \<lparr>time = reading.time d, value = temperature d\<rparr>) d;
          humid = map (\<lambda>d. \<lparr>time = reading.time d, value = humidity d\<rparr>) d;
          co2 = map (\<lambda>d. \<lparr>time = reading.time d, value = the (reading.co2 d)\<rparr>)
                  (filter (\<lambda>d. truthy (reading.co2 d)) d)
      in (\<lparr>series.temp = temp, series.humid = humid, series.co2 = co2\<rparr>, p1))"

definition fetch_range_data_between :: "env \<Rightarrow> int \<Rightarrow> int \<Rightarrow> page \<Rightarrow> series \<times> page" where
  "fetch_range_data_between e start_ms stop_ms p =
     (let (d, p1) = fetch_data e (range_url start_ms stop_ms) p;
          temp = map (\<lambda>d. \<lparr>time = reading.time d, value = temperature d\<rparr>) d;
          humid = map (\<lambda>d. \<lparr>time = reading.time d, value = humidity d\<rparr>) d;
          co2 = map (\<lambda>d. \<lparr>time = reading.time d, value = the (reading.co2 d)\<rparr>)
                  (filter (\<lambda>d. truthy (reading.co2 d)) d)
      in (\<lparr>series.temp = temp, series.humid = humid, series.co2 = co2\<rparr>, p1))"

section \<open>Reconciling the chart\<close>

definition to_xy :: "point \<Rightarrow> xy" where
  "to_xy d = \<lparr>x = point.time d, y = value d\<rparr>"

definition update_chart :: "series \<Rightarrow> chart \<Rightarrow> chart" where
  "update_chart d c =
     (let dataset = map to_xy (series.temp d);
          dataset1 = map to_xy (series.humid d);
          dataset2 = map to_xy (series.co2 d);
          ds = datasets c;
          c1 =
            (if length ds \<noteq> 3
             then c\<lparr>datasets := ds
                    @ [\<lparr>label = ''Temperature (C)'', data = dataset, yAxisID = ''y''\<rparr>]
                    @ [\<lparr>label = ''Humidity (%H)'', data = dataset1, yAxisID = ''y1''\<rparr>]
                    @ [\<lparr>label = ''Co2 (ppm)'', data = dataset2, yAxisID = ''y2''\<rparr>]\<rparr>
             else
               (let ds0 = ds[0 := (ds ! 0)\<lparr>data := dataset\<rparr>];
                    ds1 = ds0[1 := (ds0 ! 1)\<lparr>data := dataset1\<rparr>];
                    ds2 = ds1[2 := (ds1 ! 2)\<lparr>data := dataset2\<rparr>]
                in c\<lparr>datasets := ds2\<rparr>))
      in c1\<lparr>calls := calls c1 @ [Update ''none'']\<rparr>)"

definition resetZoom :: "chart \<Rightarrow> chart" where
  "resetZoom c = c\<lparr>calls := calls c @ [ResetZoom]\<rparr>"

text \<open>
  The first revision's \<^verbatim>\<open>update_chart\<close>, with two datasets.  When the list holds one
  dataset, \<^verbatim>\<open>chart.data.datasets[1]\<close> is \<^verbatim>\<open>undefined\<close> and assigning its
  \<^verbatim>\<open>data\<close> throws, after slot 0 has been written and before the redraw.
\<close>

datatype js_error = TypeError

datatype 's completion = Normal 's | Throws js_error 's

definition update_chart_two :: "converted \<Rightarrow> chart \<Rightarrow> chart completion" where
  "update_chart_two d c =
     (let dataset = map to_xy (converted.temp d);
          dataset1 = map to_xy (converted.humid d);
          dataset2 = map to_xy (abs_humid d);
          ds = datasets c
      in if length ds = 0
         then
           (let c1 = c\<lparr>datasets := ds
                    @ [\<lparr>label = ''Temperature (C)'', data = dataset, yAxisID = ''y''\<rparr>]
                    @ [\<lparr>label = ''Humidity (%H)'', data = dataset1, yAxisID = ''y1''\<rparr>]\<rparr>
            in Normal (c1\<lparr>calls := calls c1 @ [Update ''none'']\<rparr>))
         else
           (let ds0 = ds[0 := (ds ! 0)\<lparr>data := dataset\<rparr>]
            in if length ds0 < 2 then Throws TypeError (c\<lparr>datasets := ds0\<rparr>)
               else
                 (let ds1 = ds0[1 := (ds0 ! 1)\<lparr>data := dataset1\<rparr>];
                      c1 = c\<lparr>datasets := ds1\<rparr>
                  in Normal (c1\<lparr>calls := calls c1 @ [Update ''none'']\<rparr>))))"

section \<open>Event handlers\<close>

text \<open>
  Each handler is one pipeline, run from the event to its last effect with nothing else
  in between; what happens when two pipelines overlap is outside the model.
\<close>

definition timespan_onchange :: "env \<Rightarrow> page \<times> chart \<Rightarrow> page \<times> chart" where
  "timespan_onchange e = (\<lambda>(p, c).
     (let (d, p1) = fetch_range_data e (timespan_value p) p;
          c1 = update_chart d c
      in (p1, resetZoom c1)))"

definition password_onchange :: "env \<Rightarrow> page \<times> chart \<Rightarrow> page \<times> chart" where
  "password_onchange e s = timespan_onchange e s"

definition reset_onclick :: "env \<Rightarrow> page \<times> chart \<Rightarrow> page \<times> chart" where
  "reset_onclick e s = timespan_onchange e s"

definition on_zoom_complete_check :: "env \<Rightarrow> page \<times> chart \<Rightarrow> page \<times> chart" where
  "on_zoom_complete_check e = (\<lambda>(p, c).
     (let axis = xAxis c;
          min' = js_round (axis_min axis);
          max' = js_round (axis_max axis);
          (d, p1) = fetch_range_data_between e min' max' p
      in (p1, update_chart d c)))"

definition on_range_change :: "env \<Rightarrow> page \<times> chart \<Rightarrow> page \<times> chart" where
  "on_range_change e = (\<lambda>(p, c).
     (let axis = xAxis c;
          min' = js_round (axis_min axis);
          max' = js_round (axis_max axis);
          (d, p1) = fetch_range_data_between e min' max' p
      in (p1, update_chart d c)))"

section \<open>The CO2 box\<close>

text \<open>
  \<^verbatim>\<open>co2_map\<close> is imported from a module that is not part of the script, so the band
  table is a parameter.  The field \<^verbatim>\<open>end\<close> of a band is written \<open>end'\<close>.  The two
  \<^verbatim>\<open>console.log\<close> calls are left out.
\<close>

record band =
  start :: real
  end' :: real
  description :: string
  color :: string

definition update_co2_box :: "band list \<Rightarrow> real \<Rightarrow> element \<Rightarrow> element completion" where
  "update_co2_box co2_map co2_level co2_box =
     (let current_level =
            List.find (\<lambda>elem. start elem \<le> co2_level \<and> co2_level < end' elem) co2_map
      in case current_level of
           None \<Rightarrow> Throws TypeError co2_box
         | Some l \<Rightarrow>
             (let b1 = co2_box\<lparr>textContent := Str (description l)\<rparr>
              in Normal (b1\<lparr>backgroundColor := color l\<rparr>)))"

section \<open>Notions of the specification\<close>

text \<open>
  A fetch ends in failure when the request is rejected, when the status is not 200, or
  when the body of a 200 response does not decode.
\<close>

definition failure :: "string + response \<Rightarrow> bool" where
  "failure r =
     (case r of
        Inl err \<Rightarrow> True
      | Inr d \<Rightarrow>
          if status d \<noteq> 200 then True
          else (case body_json d of Inl err \<Rightarrow> True | Inr body \<Rightarrow> False))"

text \<open>
  The CO2 series in the words of the specification: going through the readings in
  order, a reading whose CO2 field is present and not 0 gives one point, any other
  reading gives none.
\<close>

fun co2_points_spec :: "reading list \<Rightarrow> point list" where
  "co2_points_spec [] = []"
| "co2_points_spec (d # ds) =
     (case reading.co2 d of
        None \<Rightarrow> co2_points_spec ds
      | Some v \<Rightarrow> if v = 0 then co2_points_spec ds
                 else \<lparr>time = reading.time d, value = v\<rparr> # co2_points_spec ds)"

section \<open>Example inputs\<close>

definition plain_element :: "string list \<Rightarrow> bool \<Rightarrow> element" where
  "plain_element cs h = \<lparr>classes = cs, hidden = h, textContent = Str [], backgroundColor = []\<rparr>"

text \<open>
  A page whose error display carries no class, with one in-flight indicator and one
  result-dependent element among the other elements.
\<close>

definition example_page :: page where
  "example_page =
     \<lparr>load_time = plain_element [''hide-until-loaded''] True,
      points_loaded = plain_element [''hide-until-loaded''] True,
      error_message = plain_element [] True,
      start_date = plain_element [] False,
      end_date = plain_element [] False,
      others = [plain_element [''visible-until-loaded''] False,
                plain_element [''hide-until-loaded''] False],
      password_value = ''secret'',
      timespan_value = ''1h'',
      sweeps = []\<rparr>"

text \<open>A service that answers every request with status 500 and the body \<^verbatim>\<open>db unavailable\<close>.\<close>

definition db_unavailable :: env where
  "db_unavailable =
     \<lparr>fetch = (\<lambda>r. Inr \<lparr>status = 500, body_text = Inr ''db unavailable'',
                          body_json = Inl ''SyntaxError''\<rparr>),
      now_start = 1000, now_end = 1042\<rparr>"

text \<open>
  A service that answers every request with three readings: one with CO2, one without,
  one with a CO2 of 0.
\<close>

definition three_readings :: env where
  "three_readings =
     \<lparr>fetch = (\<lambda>r. Inr \<lparr>status = 200, body_text = Inr ''[...]'',
        body_json = Inr
          [\<lparr>reading.time = 1000, temperature = 21, humidity = 40, reading.co2 = Some 550\<rparr>,
           \<lparr>reading.time = 2000, temperature = 22, humidity = 41, reading.co2 = None\<rparr>,
           \<lparr>reading.time = 3000, temperature = 23, humidity = 42, reading.co2 = Some 0\<rparr>]\<rparr>),
      now_start = 1000, now_end = 1042\<rparr>"

text \<open>A chart after one successful load, zoomed to a fractional viewport.\<close>

definition rendered_chart :: chart where
  "rendered_chart =
     \<lparr>datasets =
        [\<lparr>label = ''Temperature (C)'', data = [\<lparr>x = 1000, y = 21\<rparr>], yAxisID = ''y''\<rparr>,
         \<lparr>label = ''Humidity (%H)'', data = [\<lparr>x = 1000, y = 40\<rparr>], yAxisID = ''y1''\<rparr>,
         \<lparr>label = ''Co2 (ppm)'', data = [\<lparr>x = 1000, y = 550\<rparr>], yAxisID = ''y2''\<rparr>],
      xAxis = \<lparr>axis_min = 999.5, axis_max = 2000.25\<rparr>,
      calls = [Update ''none'', ResetZoom]\<rparr>"

text \<open>The same for the first revision, which has two datasets.\<close>

definition two_slot_chart :: chart where
  "two_slot_chart =
     \<lparr>datasets =
        [\<lparr>label = ''Temperature (C)'', data = [\<lparr>x = 1000, y = 21\<rparr>], yAxisID = ''y''\<rparr>,
         \<lparr>label = ''Humidity (%H)'', data = [\<lparr>x = 1000, y = 40\<rparr>], yAxisID = ''y1''\<rparr>],
      xAxis = \<lparr>axis_min = 999.5, axis_max = 2000.25\<rparr>,
      calls = [Update ''none'', ResetZoom]\<rparr>"

definition one_point :: series where
  "one_point =
     \<lparr>series.temp = [\<lparr>time = 5, value = 7\<rparr>], series.humid = [], series.co2 = []\<rparr>"

definition one_point_converted :: converted where
  "one_point_converted =
     \<lparr>converted.temp = [\<lparr>time = 5, value = 7\<rparr>], converted.humid = [], abs_humid = []\<rparr>"

text \<open>A reading taken below freezing.\<close>

definition sub_zero_reading :: reading where
  "sub_zero_reading =
     \<lparr>reading.time = 0, temperature = - 10, humidity = 50, reading.co2 = None\<rparr>"

text \<open>The band table of scenario D.\<close>

definition scenario_bands :: "band list" where
  "scenario_bands =
     [\<lparr>start = 0, end' = 600, description = ''Good'', color = ''green''\<rparr>,
      \<lparr>start = 600, end' = 1000, description = ''Moderate'', color = ''yellow''\<rparr>]"

definition co2_box0 :: element where
  "co2_box0 = plain_element [] False"

section \<open>Absolute humidity\<close>

lemma absolute_humidity_value:
  "value (absolute_humidity d) =
     calculate_saturation_pressure (temperature d) * (humidity d / 100)
       / (461.5 * temperature d) * 18.02 * 1000"
  by (simp add: absolute_humidity_def Let_def)

text \<open>At -10 degrees the exponent of the Buck equation is \<open>- 4389991 / 5795433\<close>.\<close>

lemma saturation_pressure_at_minus_ten:
  "calculate_saturation_pressure (- 10) = 0.61121 / exp (4389991 / 5795433)"
proof -
  have "(18.678 - (- 10) / 234.5) * ((- 10) / (257.14 + (- 10))) = - (4389991 / 5795433 :: real)"
    by simp
  then have "calculate_saturation_pressure (- 10) = 0.61121 * exp (- (4389991 / 5795433))"
    unfolding calculate_saturation_pressure_def Let_def by (rule arg_cong)
  then show ?thesis
    unfolding exp_minus by (simp only: divide_inverse)
qed

lemma exp_at_minus_ten:
  "1 + 4389991 / 5795433 + (4389991 / 5795433)\<^sup>2 / 2 \<le> exp (4389991 / 5795433 :: real)"
  "exp (4389991 / 5795433 :: real) \<le> 1 + 4389991 / 5795433 + (4389991 / 5795433)\<^sup>2"
  by (rule exp_lower_Taylor_quadratic, simp) (rule exp_bound, simp_all)

text \<open>
  Claim C2 holds of a computation of absolute humidity and fails of this one.  The
  vapour pressure is positive, and it is divided by \<open>461.5 * T\<close> with \<open>T\<close> the
  temperature in degrees Celsius, where the gas law has the absolute temperature.  At
  -10 degrees and 50 percent, inputs the claim covers, the result is negative: it lies
  between -0.59 and -0.51 (the code computes about -0.5595), far from any rounding
  error.
\<close>

theorem absolute_humidity_below_freezing:
  "- 0.59 < value (absolute_humidity sub_zero_reading) \<and>
   value (absolute_humidity sub_zero_reading) < - 0.51"
proof -
  let ?x = "4389991 / 5795433 :: real"
  let ?k = "55070021 / 46150000 :: real"
  have pos: "0 < exp ?x" by simp
  have "value (absolute_humidity sub_zero_reading)
      = 0.61121 / exp ?x * (50 / 100) / (461.5 * (- 10)) * 18.02 * 1000"
    unfolding absolute_humidity_value
    by (simp only: sub_zero_reading_def reading.simps saturation_pressure_at_minus_ten)
  also have "\<dots> = - (?k / exp ?x)"
    by simp
  finally have val: "value (absolute_humidity sub_zero_reading) = - (?k / exp ?x)" .
  have "?k < 0.59 * (1 + ?x + ?x\<^sup>2 / 2)"
    by (simp add: power2_eq_square)
  also have "\<dots> \<le> 0.59 * exp ?x"
    using exp_at_minus_ten(1) by (rule mult_left_mono) simp
  finally have a: "?k / exp ?x < 0.59"
    using pos by (simp only: pos_divide_less_eq)
  have "0.51 * exp ?x \<le> 0.51 * (1 + ?x + ?x\<^sup>2)"
    using exp_at_minus_ten(2) by (rule mult_left_mono) simp
  also have "\<dots> < ?k"
    by (simp add: power2_eq_square)
  finally have b: "0.51 < ?k / exp ?x"
    using pos by (simp only: pos_less_divide_eq)
  from a b show ?thesis unfolding val by linarith
qed

section \<open>The fetch and the page\<close>

lemma has_class_hidden_update [simp]: "has_class c (e\<lparr>hidden := h\<rparr>) = has_class c e"
  by (simp add: has_class_def)

lemma has_class_textContent_update [simp]:
  "has_class c (e\<lparr>textContent := t\<rparr>) = has_class c e"
  by (simp add: has_class_def)

lemma all_elements_set_hidden_by_class:
  "all_elements (set_hidden_by_class c h p) =
     map (\<lambda>e. if has_class c e then e\<lparr>hidden := h\<rparr> else e) (all_elements p)"
  by (simp add: all_elements_def set_hidden_by_class_def Let_def)

lemma sweeps_set_hidden_by_class:
  "sweeps (set_hidden_by_class c h p) = sweeps p @ [SetHidden c h]"
  by (simp add: set_hidden_by_class_def Let_def)

lemma error_message_set_hidden_by_class:
  "error_message (set_hidden_by_class c h p) =
     (if has_class c (error_message p) then (error_message p)\<lparr>hidden := h\<rparr>
      else error_message p)"
  by (simp add: set_hidden_by_class_def Let_def)

lemma swept_hidden:
  assumes "el \<in> set (all_elements (set_hidden_by_class c True p))" and "has_class c el"
  shows "hidden el"
  using assms by (auto simp: all_elements_set_hidden_by_class split: if_splits)

lemma set_hidden_keeps_hidden:
  assumes "\<forall>el \<in> set (all_elements p). has_class c el \<longrightarrow> hidden el"
  shows "\<forall>el \<in> set (all_elements (set_hidden_by_class c' True p)). has_class c el \<longrightarrow> hidden el"
  using assms by (auto simp: all_elements_set_hidden_by_class split: if_splits)

lemma sweeps_report_error:
  "sweeps (report_error m p) = sweeps p @ [SetHidden ''hide-until-loaded'' True]"
  by (simp add: report_error_def Let_def sweeps_set_hidden_by_class)

lemma sweeps_loaded:
  "sweeps (loaded e body p) = sweeps p @ [SetHidden ''hide-until-loaded'' False]"
  by (simp add: loaded_def Let_def sweeps_set_hidden_by_class)

lemma error_message_report_error:
  "error_message (report_error m p) = (error_message p)\<lparr>textContent := Str m, hidden := False\<rparr>"
  by (simp add: report_error_def Let_def error_message_set_hidden_by_class)

lemma all_elements_report_error:
  "all_elements (report_error m p) =
     (all_elements (set_hidden_by_class ''hide-until-loaded'' True p))
       [2 := (error_message p)\<lparr>textContent := Str m, hidden := False\<rparr>]"
  by (simp add: report_error_def Let_def all_elements_def error_message_set_hidden_by_class)

text \<open>
  After \<^verbatim>\<open>report_error\<close> every element of class \<^verbatim>\<open>hide-until-loaded\<close> is hidden,
  unless the error display is itself such an element: it is shown last.
\<close>

lemma report_error_hides:
  assumes "\<not> has_class ''hide-until-loaded'' (error_message p)"
    and "el \<in> set (all_elements (report_error m p))"
    and "has_class ''hide-until-loaded'' el"
  shows "hidden el"
proof -
  let ?q = "set_hidden_by_class ''hide-until-loaded'' True p"
  let ?err = "(error_message p)\<lparr>textContent := Str m, hidden := False\<rparr>"
  from assms(2) have "el \<in> insert ?err (set (all_elements ?q))"
    unfolding all_elements_report_error using set_update_subset_insert by fastforce
  moreover from assms(1) have "\<not> has_class ''hide-until-loaded'' ?err" by simp
  ultimately have "el \<in> set (all_elements ?q)" using assms(3) by auto
  then show ?thesis using assms(3) by (rule swept_hidden)
qed

text \<open>Which sweep the \<^verbatim>\<open>try\<close> and \<^verbatim>\<open>catch\<close> blocks make, branch by branch.\<close>

lemma sweeps_try_catch:
  "sweeps (snd (try_catch e u p)) =
     sweeps p @ [SetHidden ''hide-until-loaded'' (failure (fetch e (request_for u p)))]"
proof (cases "fetch e (request_for u p)")
  case (Inl err)
  then show ?thesis by (simp add: try_catch_def failure_def sweeps_report_error)
next
  case (Inr d)
  show ?thesis
  proof (cases "status d \<noteq> 200")
    case True
    with Inr show ?thesis
      by (cases "body_text d") (simp_all add: try_catch_def failure_def sweeps_report_error)
  next
    case False
    with Inr show ?thesis
      by (cases "body_json d")
        (simp_all add: try_catch_def failure_def sweeps_report_error sweeps_loaded)
  qed
qed

lemma fst_try_catch_failure:
  assumes "failure (fetch e (request_for u p))"
  shows "fst (try_catch e u p) = []"
  using assms by (auto simp: try_catch_def failure_def split: sum.splits if_splits)

lemma try_catch_not_ok:
  assumes "fetch e (request_for u p) = Inr r" and "status r \<noteq> 200" and "body_text r = Inr msg"
  shows "try_catch e u p = ([], report_error msg p)"
  using assms by (simp add: try_catch_def)

lemma snd_fetch_data:
  "snd (fetch_data e u p) =
     set_hidden_by_class ''visible-until-loaded'' True (snd (try_catch e u p))"
  by (simp add: fetch_data_def split_beta)

lemma fst_fetch_data: "fst (fetch_data e u p) = fst (try_catch e u p)"
  by (simp add: fetch_data_def split_beta)

lemma fst_fetch_data_failure:
  assumes "failure (fetch e (request_for u p))"
  shows "fst (fetch_data e u p) = []"
  using assms by (simp add: fst_fetch_data fst_try_catch_failure)

lemma failure_db_unavailable: "failure (fetch db_unavailable r)"
  by (simp add: failure_def db_unavailable_def)

lemma fst_fetch_data_three_readings:
  "fst (fetch_data three_readings u p) =
     [\<lparr>reading.time = 1000, temperature = 21, humidity = 40, reading.co2 = Some 550\<rparr>,
      \<lparr>reading.time = 2000, temperature = 22, humidity = 41, reading.co2 = None\<rparr>,
      \<lparr>reading.time = 3000, temperature = 23, humidity = 42, reading.co2 = Some 0\<rparr>]"
  by (simp add: fst_fetch_data try_catch_def three_readings_def)

subsection \<open>The in-flight indicator\<close>

text \<open>
  Claim C4.  Whatever the request does (it is rejected, it answers with another status
  than 200, its body does not decode, or it succeeds), when \<^verbatim>\<open>fetch_data\<close> returns
  every element of class \<^verbatim>\<open>visible-until-loaded\<close> is hidden, and the call has made
  exactly two sweeps: one over \<^verbatim>\<open>hide-until-loaded\<close> (hiding on failure, showing on
  success), then, last, the one that hides \<^verbatim>\<open>visible-until-loaded\<close>.  So the
  in-flight indicator is hidden exactly once per call, after everything else.
\<close>

theorem fetch_data_hides_in_flight:
  "(\<forall>el \<in> set (all_elements (snd (fetch_data e u p))).
      has_class ''visible-until-loaded'' el \<longrightarrow> hidden el) \<and>
   sweeps (snd (fetch_data e u p)) =
      sweeps p @ [SetHidden ''hide-until-loaded'' (failure (fetch e (request_for u p))),
                  SetHidden ''visible-until-loaded'' True]"
proof
  show "\<forall>el \<in> set (all_elements (snd (fetch_data e u p))).
      has_class ''visible-until-loaded'' el \<longrightarrow> hidden el"
    unfolding snd_fetch_data using swept_hidden by blast
next
  show "sweeps (snd (fetch_data e u p)) =
      sweeps p @ [SetHidden ''hide-until-loaded'' (failure (fetch e (request_for u p))),
                  SetHidden ''visible-until-loaded'' True]"
    by (simp add: snd_fetch_data sweeps_set_hidden_by_class sweeps_try_catch)
qed

text \<open>On the example page, for a successful and for a failing request.\<close>

theorem fetch_data_hides_in_flight_witness:
  "list_all hidden (filter (has_class ''visible-until-loaded'')
     (all_elements (snd (fetch_data three_readings ''/data/range/1h'' example_page)))) \<and>
   sweeps (snd (fetch_data three_readings ''/data/range/1h'' example_page))
     = [SetHidden ''hide-until-loaded'' False, SetHidden ''visible-until-loaded'' True] \<and>
   sweeps (snd (fetch_data db_unavailable ''/data/range/1h'' example_page))
     = [SetHidden ''hide-until-loaded'' True, SetHidden ''visible-until-loaded'' True]"
  using fetch_data_hides_in_flight [of three_readings "''/data/range/1h''" example_page]
    fetch_data_hides_in_flight [of db_unavailable "''/data/range/1h''" example_page]
  by (simp add: list_all_iff failure_def three_readings_def db_unavailable_def example_page_def)

subsection \<open>A response with another status than 200\<close>

text \<open>
  Claim C5.  When the response has a status other than 200 and its body reads as the
  text \<open>msg\<close>, \<^verbatim>\<open>fetch_data\<close> returns the empty list and leaves \<open>msg\<close> as the text of
  the error display.  The error display is shown, as long as it is not itself an
  in-flight indicator (the last sweep hides those); and every element of class
  \<^verbatim>\<open>hide-until-loaded\<close> is hidden, as long as the error display is not itself one of
  them (it is shown after they are hidden).
\<close>

theorem non_200_reports_body_text:
  assumes "fetch e (request_for u p) = Inr r" and "status r \<noteq> 200" and "body_text r = Inr msg"
  shows "fst (fetch_data e u p) = [] \<and>
     textContent (error_message (snd (fetch_data e u p))) = Str msg \<and>
     (\<not> has_class ''visible-until-loaded'' (error_message p) \<longrightarrow>
        \<not> hidden (error_message (snd (fetch_data e u p)))) \<and>
     (\<not> has_class ''hide-until-loaded'' (error_message p) \<longrightarrow>
        (\<forall>el \<in> set (all_elements (snd (fetch_data e u p))).
           has_class ''hide-until-loaded'' el \<longrightarrow> hidden el))"
proof -
  have tc: "try_catch e u p = ([], report_error msg p)"
    using assms by (rule try_catch_not_ok)
  have p': "snd (fetch_data e u p) =
      set_hidden_by_class ''visible-until-loaded'' True (report_error msg p)"
    by (simp add: snd_fetch_data tc)
  have 1: "fst (fetch_data e u p) = []"
    by (simp add: fst_fetch_data tc)
  have 2: "textContent (error_message (snd (fetch_data e u p))) = Str msg"
    by (simp add: p' error_message_set_hidden_by_class error_message_report_error)
  have 3: "\<not> hidden (error_message (snd (fetch_data e u p)))"
    if "\<not> has_class ''visible-until-loaded'' (error_message p)"
    using that by (simp add: p' error_message_set_hidden_by_class error_message_report_error)
  have 4: "\<forall>el \<in> set (all_elements (snd (fetch_data e u p))).
           has_class ''hide-until-loaded'' el \<longrightarrow> hidden el"
    if "\<not> has_class ''hide-until-loaded'' (error_message p)"
    unfolding p' using that by (intro set_hidden_keeps_hidden ballI impI) (rule report_error_hides)
  from 1 2 3 4 show ?thesis by blast
qed

text \<open>Scenario B: status 500 with the body \<^verbatim>\<open>db unavailable\<close>, on the example page.\<close>

theorem non_200_reports_body_text_witness:
  "fst (fetch_data db_unavailable ''/data/range/1h'' example_page) = [] \<and>
   textContent (error_message (snd (fetch_data db_unavailable ''/data/range/1h'' example_page)))
     = Str ''db unavailable'' \<and>
   \<not> hidden (error_message (snd (fetch_data db_unavailable ''/data/range/1h'' example_page))) \<and>
   list_all hidden (filter (has_class ''hide-until-loaded'')
     (all_elements (snd (fetch_data db_unavailable ''/data/range/1h'' example_page))))"
proof -
  let ?r = "\<lparr>status = 500, body_text = Inr ''db unavailable'', body_json = Inl ''SyntaxError''\<rparr>"
  have f: "fetch db_unavailable (request_for ''/data/range/1h'' example_page) = Inr ?r"
    by (simp add: db_unavailable_def)
  have s: "status ?r \<noteq> 200" and t: "body_text ?r = Inr ''db unavailable''"
    by simp_all
  have c: "\<not> has_class ''visible-until-loaded'' (error_message example_page)"
      "\<not> has_class ''hide-until-loaded'' (error_message example_page)"
    by (simp_all add: example_page_def plain_element_def has_class_def)
  from non_200_reports_body_text [OF f s t] c show ?thesis
    by (simp add: list_all_iff)
qed

section \<open>The derived series\<close>

lemma co2_points_filter_map:
  "map (\<lambda>d. \<lparr>time = reading.time d, value = the (reading.co2 d)\<rparr>)
     (filter (\<lambda>d. truthy (reading.co2 d)) ds) = co2_points_spec ds"
  by (induction ds) (simp_all add: truthy_def split: option.split)

lemma length_co2_points_spec: "length (co2_points_spec ds) \<le> length ds"
  by (induction ds) (simp_all split: option.split)

lemma fst_fetch_range_data:
  "fst (fetch_range_data e r p) =
     (let d = fst (fetch_data e (''/data/range/'' @ r) p)
      in \<lparr>series.temp = map (\<lambda>d. \<lparr>time = reading.time d, value = temperature d\<rparr>) d,
          series.humid = map (\<lambda>d. \<lparr>time = reading.time d, value = humidity d\<rparr>) d,
          series.co2 = co2_points_spec d\<rparr>)"
  by (simp add: fetch_range_data_def Let_def split_beta co2_points_filter_map)

lemma fst_fetch_range_data_between:
  "fst (fetch_range_data_between e a b p) =
     (let d = fst (fetch_data e (range_url a b) p)
      in \<lparr>series.temp = map (\<lambda>d. \<lparr>time = reading.time d, value = temperature d\<rparr>) d,
          series.humid = map (\<lambda>d. \<lparr>time = reading.time d, value = humidity d\<rparr>) d,
          series.co2 = co2_points_spec d\<rparr>)"
  by (simp add: fetch_range_data_between_def Let_def split_beta co2_points_filter_map)

lemma failed_range_data:
  assumes "failure (fetch e (request_for (''/data/range/'' @ r) p))"
  shows "fst (fetch_range_data e r p) = \<lparr>series.temp = [], series.humid = [], series.co2 = []\<rparr>"
  using assms by (simp add: fst_fetch_range_data fst_fetch_data_failure)

lemma failed_range_data_between:
  assumes "failure (fetch e (request_for (range_url a b) p))"
  shows "fst (fetch_range_data_between e a b p)
    = \<lparr>series.temp = [], series.humid = [], series.co2 = []\<rparr>"
  using assms by (simp add: fst_fetch_range_data_between fst_fetch_data_failure)

text \<open>
  Claim C6.  In both \<^verbatim>\<open>fetch_range_data\<close> and \<^verbatim>\<open>fetch_range_data_between\<close> the CO2
  series is the one the specification describes (one point for each reading whose CO2
  field is present and not 0, in order, none for the others), the temperature and the
  humidity series have one point for each reading, and the CO2 series is at most as long
  as they are.
\<close>

theorem co2_series_one_point_per_truthy_reading:
  "series.co2 (fst (fetch_range_data e r p))
     = co2_points_spec (fst (fetch_data e (''/data/range/'' @ r) p)) \<and>
   length (series.temp (fst (fetch_range_data e r p)))
     = length (fst (fetch_data e (''/data/range/'' @ r) p)) \<and>
   length (series.humid (fst (fetch_range_data e r p)))
     = length (fst (fetch_data e (''/data/range/'' @ r) p)) \<and>
   length (series.co2 (fst (fetch_range_data e r p)))
     \<le> length (fst (fetch_data e (''/data/range/'' @ r) p)) \<and>
   series.co2 (fst (fetch_range_data_between e a b p))
     = co2_points_spec (fst (fetch_data e (range_url a b) p)) \<and>
   length (series.temp (fst (fetch_range_data_between e a b p)))
     = length (fst (fetch_data e (range_url a b) p)) \<and>
   length (series.humid (fst (fetch_range_data_between e a b p)))
     = length (fst (fetch_data e (range_url a b) p)) \<and>
   length (series.co2 (fst (fetch_range_data_between e a b p)))
     \<le> length (fst (fetch_data e (range_url a b) p))"
  by (simp add: fst_fetch_range_data fst_fetch_range_data_between Let_def length_co2_points_spec)

text \<open>
  Three readings, of which the second has no CO2 and the third a CO2 of 0: the CO2 series
  has the one point of the first reading, the other two series have three points.
\<close>

theorem co2_series_example:
  "series.co2 (fst (fetch_range_data three_readings ''1h'' example_page))
     = [\<lparr>time = 1000, value = 550\<rparr>] \<and>
   length (series.temp (fst (fetch_range_data three_readings ''1h'' example_page))) = 3 \<and>
   length (series.humid (fst (fetch_range_data three_readings ''1h'' example_page))) = 3"
  using co2_series_one_point_per_truthy_reading
    [of three_readings "''1h''" example_page 0 0]
  by (simp add: fst_fetch_data_three_readings)

section \<open>The reconciler\<close>

lemma length_two:
  assumes "length xs = 2"
  obtains a b where "xs = [a, b]"
proof -
  from assms obtain a ys where "xs = a # ys" and "length ys = 1" by (cases xs) auto
  moreover then obtain b where "ys = [b]" by (cases ys) auto
  ultimately show ?thesis using that by simp
qed

lemma length_three:
  assumes "length xs = 3"
  obtains a b c where "xs = [a, b, c]"
proof -
  from assms obtain a ys where "xs = a # ys" and "length ys = 2" by (cases xs) auto
  moreover then obtain b c where "ys = [b, c]" by (auto elim: length_two)
  ultimately show ?thesis using that by simp
qed

lemma datasets_update_chart_populated:
  assumes "length (datasets c) = 3"
  shows "datasets (update_chart d c) =
     [(datasets c ! 0)\<lparr>data := map to_xy (series.temp d)\<rparr>,
      (datasets c ! 1)\<lparr>data := map to_xy (series.humid d)\<rparr>,
      (datasets c ! 2)\<lparr>data := map to_xy (series.co2 d)\<rparr>]"
proof -
  from assms obtain a b c' where "datasets c = [a, b, c']" by (rule length_three)
  then show ?thesis by (simp add: update_chart_def Let_def)
qed

lemma datasets_update_chart_insert:
  assumes "length (datasets c) \<noteq> 3"
  shows "datasets (update_chart d c) =
     datasets c @
     [\<lparr>label = ''Temperature (C)'', data = map to_xy (series.temp d), yAxisID = ''y''\<rparr>,
      \<lparr>label = ''Humidity (%H)'', data = map to_xy (series.humid d), yAxisID = ''y1''\<rparr>,
      \<lparr>label = ''Co2 (ppm)'', data = map to_xy (series.co2 d), yAxisID = ''y2''\<rparr>]"
  using assms by (simp add: update_chart_def Let_def)

lemma calls_update_chart: "calls (update_chart d c) = calls c @ [Update ''none'']"
  by (simp add: update_chart_def Let_def)

lemma xAxis_update_chart: "xAxis (update_chart d c) = xAxis c"
  by (simp add: update_chart_def Let_def)

lemma update_chart_empty_series:
  assumes "length (datasets c) = 3"
  shows "datasets (update_chart \<lparr>series.temp = [], series.humid = [], series.co2 = []\<rparr> c)
    = map (\<lambda>d. d\<lparr>data := []\<rparr>) (datasets c)"
proof -
  from assms obtain a b c' where "datasets c = [a, b, c']" by (rule length_three)
  then show ?thesis by (simp add: update_chart_def Let_def)
qed

text \<open>The first revision, on a chart with two datasets and on the empty chart.\<close>

lemma update_chart_two_populated:
  assumes "length (datasets c) = 2"
  shows "update_chart_two d c =
     Normal (c\<lparr>datasets :=
         [(datasets c ! 0)\<lparr>data := map to_xy (converted.temp d)\<rparr>,
          (datasets c ! 1)\<lparr>data := map to_xy (converted.humid d)\<rparr>],
       calls := calls c @ [Update ''none'']\<rparr>)"
proof -
  from assms obtain a b where "datasets c = [a, b]" by (rule length_two)
  then show ?thesis by (simp add: update_chart_two_def Let_def)
qed

lemma update_chart_two_insert:
  assumes "length (datasets c) = 0"
  shows "update_chart_two d c =
     Normal (c\<lparr>datasets :=
         [\<lparr>label = ''Temperature (C)'', data = map to_xy (converted.temp d), yAxisID = ''y''\<rparr>,
          \<lparr>label = ''Humidity (%H)'', data = map to_xy (converted.humid d), yAxisID = ''y1''\<rparr>],
       calls := calls c @ [Update ''none'']\<rparr>)"
  using assms by (simp add: update_chart_two_def Let_def)

text \<open>
  Claim C3.  On a chart that holds three datasets, \<^verbatim>\<open>update_chart\<close> replaces the
  points of the datasets at indices 0, 1 and 2 by the temperature, humidity and CO2
  series and changes nothing else of the dataset list: the count, the labels and the
  axis bindings stay as they are, in the same order, and a second call with the same
  series leaves the list as the first call left it.  On a chart that does not hold three
  datasets (the first call finds none) it appends the three datasets, always in the same
  order and with the same labels and axes.  The first revision does the same with two
  datasets, inserting them into the empty list.
\<close>

theorem update_chart_replaces_points_only:
  "(length (datasets c) = 3 \<longrightarrow>
      datasets (update_chart d c) =
        [(datasets c ! 0)\<lparr>data := map to_xy (series.temp d)\<rparr>,
         (datasets c ! 1)\<lparr>data := map to_xy (series.humid d)\<rparr>,
         (datasets c ! 2)\<lparr>data := map to_xy (series.co2 d)\<rparr>] \<and>
      length (datasets (update_chart d c)) = length (datasets c) \<and>
      map label (datasets (update_chart d c)) = map label (datasets c) \<and>
      map yAxisID (datasets (update_chart d c)) = map yAxisID (datasets c) \<and>
      datasets (update_chart d (update_chart d c)) = datasets (update_chart d c)) \<and>
   (length (datasets c) \<noteq> 3 \<longrightarrow>
      datasets (update_chart d c) =
        datasets c @
        [\<lparr>label = ''Temperature (C)'', data = map to_xy (series.temp d), yAxisID = ''y''\<rparr>,
         \<lparr>label = ''Humidity (%H)'', data = map to_xy (series.humid d), yAxisID = ''y1''\<rparr>,
         \<lparr>label = ''Co2 (ppm)'', data = map to_xy (series.co2 d), yAxisID = ''y2''\<rparr>]) \<and>
   (length (datasets c) = 2 \<longrightarrow>
      update_chart_two d' c =
        Normal (c\<lparr>datasets :=
            [(datasets c ! 0)\<lparr>data := map to_xy (converted.temp d')\<rparr>,
             (datasets c ! 1)\<lparr>data := map to_xy (converted.humid d')\<rparr>],
          calls := calls c @ [Update ''none'']\<rparr>)) \<and>
   (length (datasets c) = 0 \<longrightarrow>
      update_chart_two d' c =
        Normal (c\<lparr>datasets :=
            [\<lparr>label = ''Temperature (C)'', data = map to_xy (converted.temp d'),
               yAxisID = ''y''\<rparr>,
             \<lparr>label = ''Humidity (%H)'', data = map to_xy (converted.humid d'),
               yAxisID = ''y1''\<rparr>],
          calls := calls c @ [Update ''none'']\<rparr>))"
proof (intro conjI impI)
  assume n: "length (datasets c) = 3"
  then obtain a b c' where abc: "datasets c = [a, b, c']" by (rule length_three)
  show 1: "datasets (update_chart d c) =
        [(datasets c ! 0)\<lparr>data := map to_xy (series.temp d)\<rparr>,
         (datasets c ! 1)\<lparr>data := map to_xy (series.humid d)\<rparr>,
         (datasets c ! 2)\<lparr>data := map to_xy (series.co2 d)\<rparr>]"
    using n by (rule datasets_update_chart_populated)
  then show 2: "length (datasets (update_chart d c)) = length (datasets c)"
    using n by simp
  from 1 abc show "map label (datasets (update_chart d c)) = map label (datasets c)"
    by simp
  from 1 abc show "map yAxisID (datasets (update_chart d c)) = map yAxisID (datasets c)"
    by simp
  from 2 n have "length (datasets (update_chart d c)) = 3" by simp
  then have "datasets (update_chart d (update_chart d c)) =
        [(datasets (update_chart d c) ! 0)\<lparr>data := map to_xy (series.temp d)\<rparr>,
         (datasets (update_chart d c) ! 1)\<lparr>data := map to_xy (series.humid d)\<rparr>,
         (datasets (update_chart d c) ! 2)\<lparr>data := map to_xy (series.co2 d)\<rparr>]"
    by (rule datasets_update_chart_populated)
  with 1 show "datasets (update_chart d (update_chart d c)) = datasets (update_chart d c)"
    by simp
next
  assume "length (datasets c) \<noteq> 3"
  then show "datasets (update_chart d c) =
        datasets c @
        [\<lparr>label = ''Temperature (C)'', data = map to_xy (series.temp d), yAxisID = ''y''\<rparr>,
         \<lparr>label = ''Humidity (%H)'', data = map to_xy (series.humid d), yAxisID = ''y1''\<rparr>,
         \<lparr>label = ''Co2 (ppm)'', data = map to_xy (series.co2 d), yAxisID = ''y2''\<rparr>]"
    by (rule datasets_update_chart_insert)
next
  assume "length (datasets c) = 2"
  then show "update_chart_two d' c =
        Normal (c\<lparr>datasets :=
            [(datasets c ! 0)\<lparr>data := map to_xy (converted.temp d')\<rparr>,
             (datasets c ! 1)\<lparr>data := map to_xy (converted.humid d')\<rparr>],
          calls := calls c @ [Update ''none'']\<rparr>)"
    by (rule update_chart_two_populated)
next
  assume "length (datasets c) = 0"
  then show "update_chart_two d' c =
        Normal (c\<lparr>datasets :=
            [\<lparr>label = ''Temperature (C)'', data = map to_xy (converted.temp d'),
               yAxisID = ''y''\<rparr>,
             \<lparr>label = ''Humidity (%H)'', data = map to_xy (converted.humid d'),
               yAxisID = ''y1''\<rparr>],
          calls := calls c @ [Update ''none'']\<rparr>)"
    by (rule update_chart_two_insert)
qed

text \<open>
  On the rendered chart one new temperature point replaces the old points and the labels
  and axes stay; on the empty chart the three datasets are inserted; the first revision
  does the same on the chart with two datasets and on the empty chart.
\<close>

theorem update_chart_replaces_points_only_witness:
  "length (datasets rendered_chart) = 3 \<and>
   datasets (update_chart one_point rendered_chart)
     = [\<lparr>label = ''Temperature (C)'', data = [\<lparr>x = 5, y = 7\<rparr>], yAxisID = ''y''\<rparr>,
        \<lparr>label = ''Humidity (%H)'', data = [], yAxisID = ''y1''\<rparr>,
        \<lparr>label = ''Co2 (ppm)'', data = [], yAxisID = ''y2''\<rparr>] \<and>
   length (datasets (rendered_chart\<lparr>datasets := []\<rparr>)) \<noteq> 3 \<and>
   datasets (update_chart one_point (rendered_chart\<lparr>datasets := []\<rparr>))
     = [\<lparr>label = ''Temperature (C)'', data = [\<lparr>x = 5, y = 7\<rparr>], yAxisID = ''y''\<rparr>,
        \<lparr>label = ''Humidity (%H)'', data = [], yAxisID = ''y1''\<rparr>,
        \<lparr>label = ''Co2 (ppm)'', data = [], yAxisID = ''y2''\<rparr>] \<and>
   length (datasets two_slot_chart) = 2 \<and>
   update_chart_two one_point_converted two_slot_chart
     = Normal (two_slot_chart\<lparr>datasets :=
         [\<lparr>label = ''Temperature (C)'', data = [\<lparr>x = 5, y = 7\<rparr>], yAxisID = ''y''\<rparr>,
          \<lparr>label = ''Humidity (%H)'', data = [], yAxisID = ''y1''\<rparr>],
         calls := [Update ''none'', ResetZoom, Update ''none'']\<rparr>) \<and>
   length (datasets (two_slot_chart\<lparr>datasets := []\<rparr>)) = 0 \<and>
   update_chart_two one_point_converted (two_slot_chart\<lparr>datasets := []\<rparr>)
     = Normal (two_slot_chart\<lparr>datasets :=
         [\<lparr>label = ''Temperature (C)'', data = [\<lparr>x = 5, y = 7\<rparr>], yAxisID = ''y''\<rparr>,
          \<lparr>label = ''Humidity (%H)'', data = [], yAxisID = ''y1''\<rparr>],
         calls := [Update ''none'', ResetZoom, Update ''none'']\<rparr>)"
  using update_chart_replaces_points_only [of rendered_chart one_point one_point_converted]
    update_chart_replaces_points_only
      [of "rendered_chart\<lparr>datasets := []\<rparr>" one_point one_point_converted]
    update_chart_replaces_points_only [of two_slot_chart one_point one_point_converted]
    update_chart_replaces_points_only
      [of "two_slot_chart\<lparr>datasets := []\<rparr>" one_point one_point_converted]
  by (simp add: rendered_chart_def two_slot_chart_def one_point_def one_point_converted_def
      to_xy_def)

text \<open>
  However many calls follow on a chart that holds three datasets, it keeps three
  datasets with the labels and axes it had.
\<close>

lemma repeated_update_chart:
  assumes "length (datasets c) = 3"
  shows "length (datasets (foldl (\<lambda>c d. update_chart d c) c ds)) = 3 \<and>
     map label (datasets (foldl (\<lambda>c d. update_chart d c) c ds)) = map label (datasets c) \<and>
     map yAxisID (datasets (foldl (\<lambda>c d. update_chart d c) c ds)) = map yAxisID (datasets c)"
  using assms
proof (induction ds arbitrary: c)
  case Nil
  then show ?case by simp
next
  case (Cons d ds)
  from Cons.prems obtain a b c' where abc: "datasets c = [a, b, c']" by (rule length_three)
  have 1: "datasets (update_chart d c) =
        [(datasets c ! 0)\<lparr>data := map to_xy (series.temp d)\<rparr>,
         (datasets c ! 1)\<lparr>data := map to_xy (series.humid d)\<rparr>,
         (datasets c ! 2)\<lparr>data := map to_xy (series.co2 d)\<rparr>]"
    using Cons.prems by (rule datasets_update_chart_populated)
  then have "length (datasets (update_chart d c)) = 3" by simp
  from Cons.IH [OF this] 1 abc show ?case by simp
qed

text \<open>
  The first revision throws when the list holds one dataset: slot 0 is written, slot 1
  does not exist, and the chart is not redrawn.
\<close>

lemma update_chart_two_single:
  assumes "datasets c = [a]"
  shows "update_chart_two d c
    = Throws TypeError (c\<lparr>datasets := [a\<lparr>data := map to_xy (converted.temp d)\<rparr>]\<rparr>)"
  using assms by (simp add: update_chart_two_def Let_def)

section \<open>The pipelines\<close>

lemma snd_timespan_onchange:
  "snd (timespan_onchange e (p, c))
     = resetZoom (update_chart (fst (fetch_range_data e (timespan_value p) p)) c)"
  by (simp add: timespan_onchange_def Let_def split_beta)

lemma snd_on_zoom_complete_check:
  "snd (on_zoom_complete_check e (p, c))
     = update_chart (fst (fetch_range_data_between e
         (js_round (axis_min (xAxis c))) (js_round (axis_max (xAxis c))) p)) c"
  by (simp add: on_zoom_complete_check_def Let_def split_beta)

lemma on_range_change_eq: "on_range_change e s = on_zoom_complete_check e s"
  by (simp add: on_range_change_def on_zoom_complete_check_def)

lemma datasets_resetZoom: "datasets (resetZoom c) = datasets c"
  by (simp add: resetZoom_def)

lemma length_rendered_chart: "length (datasets rendered_chart) = 3"
  by (simp add: rendered_chart_def)

subsection \<open>A failed fetch and the rendered data\<close>

text \<open>
  Claim C1, as amended.  A fetch that fails makes \<^verbatim>\<open>fetch_data\<close> return the empty
  list, and the pipeline goes on to reconcile the empty series into the chart.  So on a
  chart that holds three datasets, every pipeline whose fetch fails replaces the points
  of each dataset by the empty sequence; the datasets themselves (their count, order,
  labels and axes) stay.
\<close>

theorem failed_pipeline_empties_datasets:
  assumes "length (datasets c) = 3"
  shows
    "(failure (fetch e (request_for (''/data/range/'' @ timespan_value p) p)) \<longrightarrow>
        datasets (snd (timespan_onchange e (p, c))) = map (\<lambda>d. d\<lparr>data := []\<rparr>) (datasets c) \<and>
        datasets (snd (password_onchange e (p, c))) = map (\<lambda>d. d\<lparr>data := []\<rparr>) (datasets c) \<and>
        datasets (snd (reset_onclick e (p, c))) = map (\<lambda>d. d\<lparr>data := []\<rparr>) (datasets c)) \<and>
     (failure (fetch e (request_for
          (range_url (js_round (axis_min (xAxis c))) (js_round (axis_max (xAxis c)))) p)) \<longrightarrow>
        datasets (snd (on_zoom_complete_check e (p, c)))
          = map (\<lambda>d. d\<lparr>data := []\<rparr>) (datasets c) \<and>
        datasets (snd (on_range_change e (p, c)))
          = map (\<lambda>d. d\<lparr>data := []\<rparr>) (datasets c))"
proof (intro conjI impI)
  assume f: "failure (fetch e (request_for (''/data/range/'' @ timespan_value p) p))"
  show t: "datasets (snd (timespan_onchange e (p, c))) = map (\<lambda>d. d\<lparr>data := []\<rparr>) (datasets c)"
    by (simp add: snd_timespan_onchange datasets_resetZoom failed_range_data [OF f]
        update_chart_empty_series [OF assms])
  then show "datasets (snd (password_onchange e (p, c))) = map (\<lambda>d. d\<lparr>data := []\<rparr>) (datasets c)"
    by (simp add: password_onchange_def)
  from t show "datasets (snd (reset_onclick e (p, c))) = map (\<lambda>d. d\<lparr>data := []\<rparr>) (datasets c)"
    by (simp add: reset_onclick_def)
next
  assume f: "failure (fetch e (request_for
          (range_url (js_round (axis_min (xAxis c))) (js_round (axis_max (xAxis c)))) p))"
  show z: "datasets (snd (on_zoom_complete_check e (p, c)))
          = map (\<lambda>d. d\<lparr>data := []\<rparr>) (datasets c)"
    by (simp add: snd_on_zoom_complete_check failed_range_data_between [OF f]
        update_chart_empty_series [OF assms])
  then show "datasets (snd (on_range_change e (p, c)))
          = map (\<lambda>d. d\<lparr>data := []\<rparr>) (datasets c)"
    by (simp add: on_range_change_eq)
qed

text \<open>The rendered chart, with the service answering 500 to a preset change and to a pan.\<close>

theorem failed_pipeline_empties_datasets_witness:
  "length (datasets rendered_chart) = 3 \<and>
   failure (fetch db_unavailable (request_for (''/data/range/'' @ timespan_value example_page)
     example_page)) \<and>
   map data (datasets (snd (timespan_onchange db_unavailable (example_page, rendered_chart))))
     = [[], [], []] \<and>
   map data (datasets (snd (on_range_change db_unavailable (example_page, rendered_chart))))
     = [[], [], []]"
  using failed_pipeline_empties_datasets [OF length_rendered_chart, of db_unavailable example_page]
  by (simp add: failure_db_unavailable length_rendered_chart) (simp add: rendered_chart_def)

lemma js_round_eqI:
  assumes "real_of_int n - 1 / 2 \<le> v" and "v < real_of_int n + 1 / 2"
  shows "js_round v = n"
  unfolding js_round_def using assms by linarith

lemma js_round_of_int: "js_round (real_of_int i) = i"
  by (rule js_round_eqI) simp_all

text \<open>
  Claim C1 as the specification states it fails.  The rendered chart shows a temperature
  point; the user pans, the service answers 500; afterwards the temperature dataset has
  no points.
\<close>

theorem failed_fetch_discards_rendered_points:
  "failure (fetch db_unavailable (request_for (range_url 1000 2000) example_page)) \<and>
   js_round (axis_min (xAxis rendered_chart)) = 1000 \<and>
   js_round (axis_max (xAxis rendered_chart)) = 2000 \<and>
   data (datasets rendered_chart ! 0) = [\<lparr>x = 1000, y = 21\<rparr>] \<and>
   data (datasets (snd (on_zoom_complete_check db_unavailable (example_page, rendered_chart))) ! 0)
     = []"
proof -
  have "js_round (axis_min (xAxis rendered_chart)) = 1000"
    and "js_round (axis_max (xAxis rendered_chart)) = 2000"
    by (rule js_round_eqI; simp add: rendered_chart_def)+
  moreover have "data (datasets rendered_chart ! 0) = [\<lparr>x = 1000, y = 21\<rparr>]"
    by (simp add: rendered_chart_def)
  moreover have "data (datasets (snd (on_zoom_complete_check db_unavailable
      (example_page, rendered_chart))) ! 0) = []"
    by (simp add: snd_on_zoom_complete_check failed_range_data_between [OF failure_db_unavailable]
        update_chart_empty_series [OF length_rendered_chart])
      (simp add: rendered_chart_def)
  ultimately show ?thesis by (simp add: failure_db_unavailable)
qed

subsection \<open>Resetting the viewport\<close>

text \<open>
  Claim C7.  A change of the preset, a change of the password and a click on reset each
  redraw the chart and then reset the zoom; a completed zoom and a completed pan redraw
  the chart and make no other call, so they never reset the zoom.
\<close>

theorem reload_resets_zoom_refresh_does_not:
  "calls (snd (timespan_onchange e (p, c))) = calls c @ [Update ''none'', ResetZoom] \<and>
   calls (snd (password_onchange e (p, c))) = calls c @ [Update ''none'', ResetZoom] \<and>
   calls (snd (reset_onclick e (p, c))) = calls c @ [Update ''none'', ResetZoom] \<and>
   calls (snd (on_zoom_complete_check e (p, c))) = calls c @ [Update ''none''] \<and>
   calls (snd (on_range_change e (p, c))) = calls c @ [Update ''none'']"
  by (simp add: snd_timespan_onchange password_onchange_def reset_onclick_def
      snd_on_zoom_complete_check on_range_change_eq resetZoom_def calls_update_chart)

text \<open>On the rendered chart, with the service that answers three readings.\<close>

theorem reload_resets_zoom_refresh_does_not_witness:
  "calls (snd (reset_onclick three_readings (example_page, rendered_chart)))
     = [Update ''none'', ResetZoom, Update ''none'', ResetZoom] \<and>
   calls (snd (on_range_change three_readings (example_page, rendered_chart)))
     = [Update ''none'', ResetZoom, Update ''none'']"
  using reload_resets_zoom_refresh_does_not [of three_readings example_page rendered_chart]
  by (simp add: rendered_chart_def)

subsection \<open>Rounding the viewport\<close>

lemma range_url_example: "range_url 1000 2000 = ''/data/from/1000/to/2000''"
  by code_simp

text \<open>
  Claim C10.  Rounding an already rounded bound gives the same bound, so the query built
  from the viewport after its bounds were rounded is the query built from the viewport
  itself; and a zoom handler that finds the rounded viewport leaves the same page and
  the same datasets as one that finds the viewport itself.
\<close>

theorem rounding_viewport_idempotent:
  "js_round (real_of_int (js_round v)) = js_round v \<and>
   range_url (js_round (real_of_int (js_round lo))) (js_round (real_of_int (js_round hi)))
     = range_url (js_round lo) (js_round hi) \<and>
   fst (on_zoom_complete_check e (p, c\<lparr>xAxis :=
       \<lparr>axis_min = real_of_int (js_round (axis_min (xAxis c))),
        axis_max = real_of_int (js_round (axis_max (xAxis c)))\<rparr>\<rparr>))
     = fst (on_zoom_complete_check e (p, c)) \<and>
   datasets (snd (on_zoom_complete_check e (p, c\<lparr>xAxis :=
       \<lparr>axis_min = real_of_int (js_round (axis_min (xAxis c))),
        axis_max = real_of_int (js_round (axis_max (xAxis c)))\<rparr>\<rparr>)))
     = datasets (snd (on_zoom_complete_check e (p, c)))"
  by (simp add: js_round_of_int on_zoom_complete_check_def Let_def split_beta update_chart_def)

text \<open>The viewport from 999.5 to 2000.25 asks for the range from 1000 to 2000.\<close>

theorem rounding_viewport_idempotent_witness:
  "js_round (real_of_int (js_round 999.5)) = 1000 \<and>
   range_url (js_round (real_of_int (js_round 999.5))) (js_round (real_of_int (js_round 2000.25)))
     = ''/data/from/1000/to/2000''"
proof -
  have r: "js_round 999.5 = 1000" "js_round 2000.25 = 2000"
    by (rule js_round_eqI; simp)+
  from rounding_viewport_idempotent [of "999.5" "999.5" "2000.25" db_unavailable example_page
      rendered_chart]
  have "js_round (real_of_int (js_round 999.5)) = js_round 999.5"
    and "range_url (js_round (real_of_int (js_round 999.5)))
        (js_round (real_of_int (js_round 2000.25)))
      = range_url (js_round 999.5) (js_round 2000.25)"
    by blast+
  then show ?thesis unfolding r by (simp add: range_url_example)
qed

section \<open>The band lookup\<close>

lemma update_co2_box_found:
  assumes "List.find (\<lambda>elem. start elem \<le> v \<and> v < end' elem) co2_map = Some l"
  shows "update_co2_box co2_map v box
    = Normal (box\<lparr>textContent := Str (description l), backgroundColor := color l\<rparr>)"
  using assms by (simp add: update_co2_box_def Let_def)

lemma update_co2_box_not_found:
  assumes "List.find (\<lambda>elem. start elem \<le> v \<and> v < end' elem) co2_map = None"
  shows "update_co2_box co2_map v box = Throws TypeError box"
  using assms by (simp add: update_co2_box_def Let_def)

text \<open>
  Claim C8.  When some band of the table contains the value, the lookup finds a band of
  the table that contains it (the first such band in the order of the table) and
  \<^verbatim>\<open>update_co2_box\<close> sets the text of the box to its description and the
  background to its colour.  When only one band contains the value, that band is the
  one applied.
\<close>

theorem update_co2_box_applies_containing_band:
  assumes "b \<in> set co2_map" and "start b \<le> v" and "v < end' b"
  shows "\<exists>l. List.find (\<lambda>elem. start elem \<le> v \<and> v < end' elem) co2_map = Some l \<and>
     l \<in> set co2_map \<and> start l \<le> v \<and> v < end' l \<and>
     update_co2_box co2_map v box
       = Normal (box\<lparr>textContent := Str (description l), backgroundColor := color l\<rparr>) \<and>
     ((\<forall>b' \<in> set co2_map. start b' \<le> v \<and> v < end' b' \<longrightarrow> b' = b) \<longrightarrow> l = b)"
proof -
  let ?P = "\<lambda>elem. start elem \<le> v \<and> v < end' elem"
  from assms have "\<exists>x \<in> set co2_map. ?P x" by blast
  then have "List.find ?P co2_map \<noteq> None" by (auto simp: find_None_iff)
  then obtain l where l: "List.find ?P co2_map = Some l" by blast
  then obtain i where "i < length co2_map" and "?P (co2_map ! i)" and "l = co2_map ! i"
    unfolding find_Some_iff by blast
  then have "l \<in> set co2_map" and "?P l" by simp_all
  with l update_co2_box_found [OF l] show ?thesis by blast
qed

text \<open>Scenario D: the value 550 gets the description \<^verbatim>\<open>Good\<close> and the colour green.\<close>

theorem update_co2_box_scenario_d:
  "update_co2_box scenario_bands 550 co2_box0
     = Normal (co2_box0\<lparr>textContent := Str ''Good'', backgroundColor := ''green''\<rparr>)"
proof -
  let ?good = "\<lparr>start = 0, end' = 600, description = ''Good'', color = ''green''\<rparr>"
  have "?good \<in> set scenario_bands" and "start ?good \<le> 550" and "550 < end' ?good"
    by (simp_all add: scenario_bands_def)
  from update_co2_box_applies_containing_band [OF this, of co2_box0]
  show ?thesis by (auto simp: scenario_bands_def)
qed

text \<open>
  Claim C9, as amended.  When no band of the table contains the value, the lookup finds
  nothing and neither a description nor a colour is applied: the box stays as it was.
  The update does not complete, though: reading the description of the band that was
  not found throws a \<^verbatim>\<open>TypeError\<close>.
\<close>

theorem update_co2_box_no_band_throws:
  assumes "\<forall>b \<in> set co2_map. \<not> (start b \<le> v \<and> v < end' b)"
  shows "List.find (\<lambda>elem. start elem \<le> v \<and> v < end' elem) co2_map = None \<and>
     update_co2_box co2_map v box = Throws TypeError box"
proof -
  from assms have "List.find (\<lambda>elem. start elem \<le> v \<and> v < end' elem) co2_map = None"
    by (simp add: find_None_iff)
  then show ?thesis by (simp add: update_co2_box_not_found)
qed

text \<open>The value 2000 is in neither band of scenario D.\<close>

theorem update_co2_box_no_band_throws_witness:
  "list_all (\<lambda>b. \<not> (start b \<le> 2000 \<and> 2000 < end' b)) scenario_bands \<and>
   update_co2_box scenario_bands 2000 co2_box0 = Throws TypeError co2_box0"
proof -
  have "\<forall>b \<in> set scenario_bands. \<not> (start b \<le> 2000 \<and> 2000 < end' b)"
    by (simp add: scenario_bands_def)
  from this update_co2_box_no_band_throws [OF this, of co2_box0]
  show ?thesis by (simp add: list_all_iff)
qed

text \<open>
  Claim C9 as the specification states it fails: the value 1500 is in neither band of
  scenario D, and the update does not complete.
\<close>

theorem update_co2_box_faults_outside_bands:
  "\<not> (\<exists>b \<in> set scenario_bands. start b \<le> 1500 \<and> 1500 < end' b) \<and>
   \<not> (\<exists>box. update_co2_box scenario_bands 1500 co2_box0 = Normal box)"
  by (simp add: update_co2_box_def scenario_bands_def)

end
